theory Spec2Isabelle
  imports Main "HOL-Library.Word"
begin

unbundle bit_operations_syntax

section \<open>HelloOpenCL: the host program of main.c\<close>

text \<open>
  The repository is one C file, \<^verbatim>\<open>src/HelloOpenCL/main.c\<close>, with three functions:
  \<^verbatim>\<open>getBundleResourcePath\<close>, \<^verbatim>\<open>validate\<close> and \<^verbatim>\<open>main\<close>. The program talks to
  the OpenCL runtime and to CoreFoundation; neither is code of the repository. A run is
  therefore modelled against an \<^emph>\<open>environment\<close>: a record that holds, for every external
  call the program makes, what that call answers in this run. Every call site of
  \<^verbatim>\<open>main\<close> is executed at most once, so one answer per call site describes every run.
  What the program does is recorded as a trace of events in program order (the calls it
  makes, what it prints, what it releases) together with the exit status.
\<close>

subsection \<open>Constants and values\<close>

text \<open>\<^verbatim>\<open>cl_int\<close> is a signed 32-bit integer; \<^verbatim>\<open>%d\<close> prints its signed value.\<close>

type_synonym cl_int = "32 word"

text \<open>\<^verbatim>\<open>#define CL_SUCCESS 0\<close> in the OpenCL header \<^verbatim>\<open>cl.h\<close>.\<close>

definition CL_SUCCESS :: cl_int where
  "CL_SUCCESS = 0"

text \<open>\<^verbatim>\<open>#define NUM_VALUES 1024\<close> (main.c, line 15).\<close>

definition NUM_VALUES :: nat where
  "NUM_VALUES = 1024"

text \<open>
  \<^verbatim>\<open>cl_float\<close> is an IEEE 754 binary32 value. The program uses three operations on it:
  the product \<^verbatim>\<open>a * b\<close>, the comparison \<^verbatim>\<open>a != b\<close> and the conversion
  \<^verbatim>\<open>(float)i\<close> of a loop index. They are taken as parameters: the type \<open>'f\<close> of float
  values and a record of the three operations. Everything proved below holds for every
  choice of them, so for the IEEE operations as well.
\<close>

record 'f float_ops =
  fmul :: "'f \<Rightarrow> 'f \<Rightarrow> 'f"
  fne :: "'f \<Rightarrow> 'f \<Rightarrow> bool"
  of_index :: "nat \<Rightarrow> 'f"

text \<open>
  C defines \<^verbatim>\<open>a == b\<close> on floats as the negation of \<^verbatim>\<open>a != b\<close> (also on NaN, where
  \<^verbatim>\<open>!=\<close> is true and \<^verbatim>\<open>==\<close> is false).
\<close>

definition feq :: "'f float_ops \<Rightarrow> 'f \<Rightarrow> 'f \<Rightarrow> bool" where
  "feq ops a b = (\<not> fne ops a b)"

subsection \<open>Events and the machine state\<close>

text \<open>The six OpenCL objects \<^verbatim>\<open>main\<close> creates, named after the variables that hold them.\<close>

datatype handle = Context | Queue | Program | Kernel | Mem_in | Mem_out

datatype device_type = CL_DEVICE_TYPE_GPU | CL_DEVICE_TYPE_CPU

text \<open>
  The OpenCL calls whose status \<^verbatim>\<open>main\<close> inspects, with the arguments that matter here:
  the source string of \<^verbatim>\<open>clCreateProgramWithSource\<close>, the kernel name, the variable a
  buffer is stored in, the index and buffer of a kernel argument, the global size.
\<close>

datatype api =
    ClGetPlatformIDs
  | ClGetDeviceIDs device_type
  | ClCreateContext
  | ClCreateCommandQueue
  | ClCreateProgramWithSource string
  | ClBuildProgram
  | ClCreateKernel string
  | ClCreateBuffer handle
  | ClSetKernelArg nat handle
  | ClEnqueueNDRangeKernel nat
  | ClEnqueueReadBuffer

text \<open>An argument of a \<^verbatim>\<open>printf\<close> call: \<^verbatim>\<open>%d\<close>, \<^verbatim>\<open>%s\<close> or \<^verbatim>\<open>%1.4f\<close>.\<close>

datatype 'f arg = IntArg int | StrArg string | FloatArg 'f

text \<open>
  \<open>Print fmt args\<close> is a \<^verbatim>\<open>printf\<close> (or \<^verbatim>\<open>fprintf(stdout, ...)\<close>) of the format string
  with its arguments; \<open>Call f c\<close> is the call \<open>f\<close> answering status \<open>c\<close>;
  \<open>Release h\<close> is the \<^verbatim>\<open>clRelease...\<close> call on the object \<open>h\<close>. The remaining events
  are calls whose status the program ignores. Host allocation (\<^verbatim>\<open>malloc\<close>, \<^verbatim>\<open>free\<close>)
  is not traced.
\<close>

datatype 'f event =
    Print string "'f arg list"
  | Flush
  | Call api cl_int
  | GetDeviceInfo
  | ResourceLookup string
  | GetProgramBuildInfo nat
  | Release handle

text \<open>
  Host memory holds the two float arrays: a pointer and an index give a value, as in C,
  where nothing checks a bound.
\<close>

type_synonym ptr = nat

record 'f machine =
  trace :: "'f event list"
  heap :: "ptr \<Rightarrow> nat \<Rightarrow> 'f"

definition emit :: "'f event list \<Rightarrow> 'f machine \<Rightarrow> 'f machine" where
  "emit evs s = s\<lparr>trace := trace s @ evs\<rparr>"

subsection \<open>The environment of a run\<close>

text \<open>
  One answer per external call site of \<^verbatim>\<open>main\<close>, in the order of the source.
  \<open>bundle_url\<close> is \<^verbatim>\<open>CFBundleCopyResourceURL\<close> (\<open>None\<close> for \<^verbatim>\<open>NULL\<close>); \<open>url_path\<close>
  is \<^verbatim>\<open>CFURLGetFileSystemRepresentation\<close> (\<open>None\<close> when it answers false, else the
  path it wrote); \<open>file_contents\<close> is the file system, which no function of main.c
  reads. \<open>build_log\<close> is the program's build log on the device, as a C string;
  \<open>junk_log\<close> is what the freshly allocated log buffer holds. \<open>device_out\<close> is what
  the output buffer holds on the device when it is read back. \<open>test_in_ptr\<close> and
  \<open>test_out_ptr\<close> are the two blocks \<^verbatim>\<open>malloc\<close> hands out, \<open>mem0\<close> the initial
  contents of host memory.
\<close>

record 'f env =
  platform_err :: cl_int
  gpu_err :: cl_int
  cpu_err :: cl_int
  device_name :: string
  context_err :: cl_int
  queue_err :: cl_int
  bundle_url :: "string \<Rightarrow> string option"
  url_path :: "string \<Rightarrow> string option"
  file_contents :: "string \<Rightarrow> string option"
  program_err :: cl_int
  build_err :: cl_int
  build_log :: string
  junk_log :: string
  kernel_err :: cl_int
  mem_in_err :: cl_int
  mem_out_err :: cl_int
  arg0_err :: cl_int
  arg1_err :: cl_int
  enqueue_err :: cl_int
  read_err :: cl_int
  device_out :: "nat \<Rightarrow> 'f"
  test_in_ptr :: ptr
  test_out_ptr :: ptr
  mem0 :: "ptr \<Rightarrow> nat \<Rightarrow> 'f"

subsection \<open>getBundleResourcePath (main.c, lines 17-39)\<close>

text \<open>
  The function answers \<^verbatim>\<open>NULL\<close> when the bundle has no such resource or when the URL
  has no file-system representation that fits the buffer; otherwise it answers the
  \<^emph>\<open>path\<close> of the resource. It opens no file.
\<close>

definition getBundleResourcePath :: "'f env \<Rightarrow> string \<Rightarrow> string option" where
  "getBundleResourcePath e filename =
     (case bundle_url e filename of
        None \<Rightarrow> None
      | Some fileURL \<Rightarrow>
          (case url_path e fileURL of
             None \<Rightarrow> None
           | Some path \<Rightarrow> Some path))"

subsection \<open>validate (main.c, lines 41-51)\<close>

function validate_loop ::
  "'f float_ops \<Rightarrow> ptr \<Rightarrow> ptr \<Rightarrow> nat \<Rightarrow> 'f machine \<Rightarrow> 'f machine \<times> int" where
  "validate_loop ops input output i s =
     (if i < NUM_VALUES then
        (if fne ops (heap s output i) (fmul ops (heap s input i) (heap s input i)) then
           (emit [Print ''Error: Element %d did not match expected output.\<newline>''
                    [IntArg (int i)],
                  Print ''Saw %1.4f, expected %1.4f\<newline>''
                    [FloatArg (heap s output i),
                     FloatArg (fmul ops (heap s input i) (heap s input i))],
                  Flush] s, 0)
         else validate_loop ops input output (i + 1) s)
      else (s, 1))"
  by pat_completeness auto
termination
  by (relation "measure (\<lambda>(ops, input, output, i, s). NUM_VALUES - i)") auto

declare validate_loop.simps [simp del]

definition validate :: "'f float_ops \<Rightarrow> ptr \<Rightarrow> ptr \<Rightarrow> 'f machine \<Rightarrow> 'f machine \<times> int" where
  "validate ops input output s = validate_loop ops input output 0 s"

subsection \<open>main (main.c, lines 53-220)\<close>

text \<open>The unwind path at the label \<^verbatim>\<open>cleanup\<close> (lines 211-219); it ends in \<^verbatim>\<open>return 0\<close>.\<close>

definition cleanup :: "'f machine \<Rightarrow> 'f machine \<times> int" where
  "cleanup s =
     (emit [Release Kernel, Release Program, Release Queue, Release Context] s, 0)"

text \<open>Lines 202-209: validation, the success message, the release of the two buffers.\<close>

definition main_validate :: "'f float_ops \<Rightarrow> 'f env \<Rightarrow> 'f machine \<Rightarrow> 'f machine \<times> int" where
  "main_validate ops e s =
     (let (s1, ok) = validate ops (test_in_ptr e) (test_out_ptr e) s;
          s2 = (if ok \<noteq> 0
                then emit [Print ''All values were properly squared!\<newline>'' []] s1
                else s1)
      in cleanup (emit [Release Mem_in, Release Mem_out] s2))"

text \<open>Lines 153-155: \<^verbatim>\<open>test_in[i] = (float)i\<close> for every index below \<^verbatim>\<open>NUM_VALUES\<close>.\<close>

function init_loop :: "'f float_ops \<Rightarrow> ptr \<Rightarrow> nat \<Rightarrow> 'f machine \<Rightarrow> 'f machine" where
  "init_loop ops test_in i s =
     (if i < NUM_VALUES then
        init_loop ops test_in (i + 1)
          (s\<lparr>heap := (heap s)(test_in := (heap s test_in)(i := of_index ops i))\<rparr>)
      else s)"
  by pat_completeness auto
termination
  by (relation "measure (\<lambda>(ops, test_in, i, s). NUM_VALUES - i)") auto

declare init_loop.simps [simp del]

text \<open>
  A blocking \<^verbatim>\<open>clEnqueueReadBuffer\<close> of \<^verbatim>\<open>NUM_VALUES\<close> floats into \<^verbatim>\<open>test_out\<close>: when it
  succeeds the host array holds the device's output buffer; when it fails the program
  never reads the array again.
\<close>

definition read_back :: "'f env \<Rightarrow> 'f machine \<Rightarrow> 'f machine" where
  "read_back e s =
     (if read_err e = CL_SUCCESS then
        s\<lparr>heap := (heap s)(test_out_ptr e :=
             (\<lambda>i. if i < NUM_VALUES then device_out e i else heap s (test_out_ptr e) i))\<rparr>
      else s)"

text \<open>Lines 149-200: test data, the two buffers, the kernel arguments, dispatch, read-back.\<close>

definition main_buffers :: "'f float_ops \<Rightarrow> 'f env \<Rightarrow> 'f machine \<Rightarrow> 'f machine \<times> int" where
  "main_buffers ops e s0 =
     (let s1 = init_loop ops (test_in_ptr e) 0 s0;
          err = mem_in_err e;
          s2 = emit [Call (ClCreateBuffer Mem_in) err] s1
      in if err \<noteq> CL_SUCCESS then
           cleanup (emit [Print ''Error creating input buffer: %d\<newline>'' [IntArg (sint err)]] s2)
         else
     (let err = mem_out_err e;
          s3 = emit [Call (ClCreateBuffer Mem_out) err] s2
      in if err \<noteq> CL_SUCCESS then
           cleanup (emit [Print ''Error creating output buffer: %d\<newline>'' [IntArg (sint err)],
                          Release Mem_in] s3)
         else
     (let err0 = arg0_err e;
          s4 = emit [Call (ClSetKernelArg 0 Mem_in) err0] s3;
          err = err0 OR arg1_err e;
          s5 = emit [Call (ClSetKernelArg 1 Mem_out) (arg1_err e)] s4
      in if err \<noteq> CL_SUCCESS then
           cleanup (emit [Print ''Error setting kernel arguments: %d\<newline>'' [IntArg (sint err)],
                          Release Mem_in, Release Mem_out] s5)
         else
     (let err = enqueue_err e;
          s6 = emit [Call (ClEnqueueNDRangeKernel NUM_VALUES) err] s5
      in if err \<noteq> CL_SUCCESS then
           cleanup (emit [Print ''Error executing kernel: %d\<newline>'' [IntArg (sint err)],
                          Release Mem_in, Release Mem_out] s6)
         else
     (let err = read_err e;
          s7 = read_back e (emit [Call ClEnqueueReadBuffer err] s6)
      in if err \<noteq> CL_SUCCESS then
           cleanup (emit [Print ''Error reading results: %d\<newline>'' [IntArg (sint err)],
                          Release Mem_in, Release Mem_out] s7)
         else main_validate ops e s7)))))"

text \<open>
  \<^verbatim>\<open>clGetProgramBuildInfo\<close> for \<^verbatim>\<open>CL_PROGRAM_BUILD_LOG\<close>, after the OpenCL
  specification: the size of the log counts its terminating NUL; the log is copied when
  the buffer holds at least that many bytes, and otherwise the call fails with
  \<^verbatim>\<open>CL_INVALID_VALUE\<close> and leaves the buffer as it was.
\<close>

definition build_log_size :: "'f env \<Rightarrow> nat" where
  "build_log_size e = length (build_log e) + 1"

definition build_log_value :: "'f env \<Rightarrow> nat \<Rightarrow> string" where
  "build_log_value e param_value_size =
     (if build_log_size e \<le> param_value_size then build_log e else junk_log e)"

text \<open>Lines 100-147: the kernel source, the program, its build, the kernel.\<close>

definition main_program :: "'f float_ops \<Rightarrow> 'f env \<Rightarrow> 'f machine \<Rightarrow> 'f machine \<times> int" where
  "main_program ops e s0 =
     (let kernel_file = ''kernel.cl'';
          kernel_source = getBundleResourcePath e kernel_file;
          s1 = emit [ResourceLookup kernel_file] s0
      in case kernel_source of
           None \<Rightarrow>
             (emit [Print ''Could not find %s in bundle\<newline>'' [StrArg kernel_file],
                    Release Queue, Release Context] s1, 1)
         | Some src \<Rightarrow>
     (let err = program_err e;
          s2 = emit [Call (ClCreateProgramWithSource src) err] s1
      in if err \<noteq> CL_SUCCESS then
           (emit [Print ''Error creating program: %d\<newline>'' [IntArg (sint err)],
                  Release Queue, Release Context] s2, 1)
         else
     (let err = build_err e;
          s3 = emit [Call ClBuildProgram err] s2
      in if err \<noteq> CL_SUCCESS then
           (let log_size = build_log_size e;
                log = build_log_value e log_size
            in (emit [Print ''Error building program: %d\<newline>'' [IntArg (sint err)],
                      GetProgramBuildInfo 0,
                      GetProgramBuildInfo log_size,
                      Print ''Build log:\<newline>%s\<newline>'' [StrArg log],
                      Release Program, Release Queue, Release Context] s3, 1))
         else
     (let err = kernel_err e;
          s4 = emit [Call (ClCreateKernel ''square'') err] s3
      in if err \<noteq> CL_SUCCESS then
           (emit [Print ''Error creating kernel: %d\<newline>'' [IntArg (sint err)],
                  Release Program, Release Queue, Release Context] s4, 1)
         else main_buffers ops e s4))))"

text \<open>Lines 80-98: the device name, the context, the command queue.\<close>

definition main_context :: "'f float_ops \<Rightarrow> 'f env \<Rightarrow> 'f machine \<Rightarrow> 'f machine \<times> int" where
  "main_context ops e s0 =
     (let s1 = emit [GetDeviceInfo, Print ''Using device: %s\<newline>'' [StrArg (device_name e)]] s0;
          err = context_err e;
          s2 = emit [Call ClCreateContext err] s1
      in if err \<noteq> CL_SUCCESS then
           (emit [Print ''Error creating context: %d\<newline>'' [IntArg (sint err)]] s2, 1)
         else
     (let err = queue_err e;
          s3 = emit [Call ClCreateCommandQueue err] s2
      in if err \<noteq> CL_SUCCESS then
           (emit [Print ''Error creating command queue: %d\<newline>'' [IntArg (sint err)],
                  Release Context] s3, 1)
         else main_program ops e s3))"

text \<open>
  Lines 69-78: the GPU probe, then the CPU probe when the GPU probe failed. The result
  says whether a device was found; when none was, \<^verbatim>\<open>main\<close> returns 1 there.
\<close>

definition select_device :: "'f env \<Rightarrow> 'f machine \<Rightarrow> 'f machine \<times> bool" where
  "select_device e s0 =
     (let err = gpu_err e;
          s1 = emit [Call (ClGetDeviceIDs CL_DEVICE_TYPE_GPU) err] s0
      in if err \<noteq> CL_SUCCESS then
           (let s2 = emit [Print ''No GPU found, trying CPU...\<newline>'' []] s1;
                err = cpu_err e;
                s3 = emit [Call (ClGetDeviceIDs CL_DEVICE_TYPE_CPU) err] s2
            in if err \<noteq> CL_SUCCESS then
                 (emit [Print ''No OpenCL devices found\<newline>'' []] s3, False)
               else (s3, True))
         else (s1, True))"

text \<open>Lines 53-78: the platform and the device, then the rest of the run.\<close>

definition main :: "'f float_ops \<Rightarrow> 'f env \<Rightarrow> 'f machine \<times> int" where
  "main ops e =
     (let s0 = \<lparr>trace = [], heap = mem0 e\<rparr>;
          err = platform_err e;
          s1 = emit [Call ClGetPlatformIDs err] s0
      in if err \<noteq> CL_SUCCESS then
           (emit [Print ''Error getting platform: %d\<newline>'' [IntArg (sint err)]] s1, 1)
         else
     (let (s2, found) = select_device e s1
      in if \<not> found then (s2, 1)
         else main_context ops e s2))"

text \<open>The events of a run and its exit status.\<close>

definition run_trace :: "'f float_ops \<Rightarrow> 'f env \<Rightarrow> 'f event list" where
  "run_trace ops e = trace (fst (main ops e))"

definition exit_status :: "'f float_ops \<Rightarrow> 'f env \<Rightarrow> int" where
  "exit_status ops e = snd (main ops e)"

subsection \<open>Reading a trace\<close>

text \<open>The object a successful call creates, if it creates one.\<close>

fun creator :: "api \<Rightarrow> handle option" where
  "creator ClCreateContext = Some Context"
| "creator ClCreateCommandQueue = Some Queue"
| "creator (ClCreateProgramWithSource src) = Some Program"
| "creator (ClCreateKernel name) = Some Kernel"
| "creator (ClCreateBuffer h) = Some h"
| "creator f = None"

fun creates :: "handle \<Rightarrow> 'f event \<Rightarrow> bool" where
  "creates h (Call f c) = (creator f = Some h \<and> c = CL_SUCCESS)"
| "creates h ev = False"

text \<open>An object was created in a run when its creating call answered \<^verbatim>\<open>CL_SUCCESS\<close>.\<close>

definition created :: "'f event list \<Rightarrow> handle \<Rightarrow> bool" where
  "created t h = list_ex (creates h) t"

text \<open>How often an object is released in a run, and the releases of a run in order.\<close>

definition releases :: "'f event list \<Rightarrow> handle \<Rightarrow> nat" where
  "releases t h = length (filter (\<lambda>ev. ev = Release h) t)"

fun released :: "'f event \<Rightarrow> handle list" where
  "released (Release h) = [h]"
| "released ev = []"

definition release_order :: "'f event list \<Rightarrow> handle list" where
  "release_order t = concat (map released t)"

text \<open>The calls of a run that were made to a given function, whatever they answered.\<close>

fun calls :: "api \<Rightarrow> 'f event \<Rightarrow> bool" where
  "calls f (Call g c) = (f = g)"
| "calls f ev = False"

definition called :: "'f event list \<Rightarrow> api \<Rightarrow> bool" where
  "called t f = list_ex (calls f) t"

text \<open>The device types probed in a run, in order.\<close>

fun probe :: "'f event \<Rightarrow> device_type list" where
  "probe (Call (ClGetDeviceIDs ty) c) = [ty]"
| "probe ev = []"

definition probes :: "'f event list \<Rightarrow> device_type list" where
  "probes t = concat (map probe t)"

text \<open>The strings handed to \<^verbatim>\<open>clCreateProgramWithSource\<close> in a run.\<close>

fun program_source :: "'f event \<Rightarrow> string list" where
  "program_source (Call (ClCreateProgramWithSource src) c) = [src]"
| "program_source ev = []"

definition program_sources :: "'f event list \<Rightarrow> string list" where
  "program_sources t = concat (map program_source t)"

text \<open>
  Work on a context, a queue or a program: any call from \<^verbatim>\<open>clCreateContext\<close> on, the
  resource lookup and every release.
\<close>

fun later_work :: "'f event \<Rightarrow> bool" where
  "later_work (Call ClGetPlatformIDs c) = False"
| "later_work (Call (ClGetDeviceIDs ty) c) = False"
| "later_work (Print fmt args) = False"
| "later_work Flush = False"
| "later_work ev = True"

text \<open>What a run prints: its \<^verbatim>\<open>printf\<close> calls in order.\<close>

fun is_print :: "'f event \<Rightarrow> bool" where
  "is_print (Print fmt args) = True"
| "is_print ev = False"

definition printed :: "'f event list \<Rightarrow> 'f event list" where
  "printed t = filter is_print t"

fun is_output :: "'f event \<Rightarrow> bool" where
  "is_output (Print fmt args) = True"
| "is_output Flush = True"
| "is_output ev = False"

text \<open>
  The diagnostic format string of each step, as the \<^verbatim>\<open>printf\<close> calls of \<^verbatim>\<open>main\<close>
  have them. The device step has one message for the failure of both probes; it has no
  \<^verbatim>\<open>%d\<close>.
\<close>

fun diagnostic :: "api \<Rightarrow> string" where
  "diagnostic ClGetPlatformIDs = ''Error getting platform: %d\<newline>''"
| "diagnostic (ClGetDeviceIDs ty) = ''No OpenCL devices found\<newline>''"
| "diagnostic ClCreateContext = ''Error creating context: %d\<newline>''"
| "diagnostic ClCreateCommandQueue = ''Error creating command queue: %d\<newline>''"
| "diagnostic (ClCreateProgramWithSource src) = ''Error creating program: %d\<newline>''"
| "diagnostic ClBuildProgram = ''Error building program: %d\<newline>''"
| "diagnostic (ClCreateKernel name) = ''Error creating kernel: %d\<newline>''"
| "diagnostic (ClCreateBuffer h) =
     (if h = Mem_in then ''Error creating input buffer: %d\<newline>''
      else ''Error creating output buffer: %d\<newline>'')"
| "diagnostic (ClSetKernelArg n h) = ''Error setting kernel arguments: %d\<newline>''"
| "diagnostic (ClEnqueueNDRangeKernel n) = ''Error executing kernel: %d\<newline>''"
| "diagnostic ClEnqueueReadBuffer = ''Error reading results: %d\<newline>''"

text \<open>
  The steps whose failure branch ends in \<^verbatim>\<open>return 1\<close> (lines 64-147), and the steps
  whose failure branch jumps to the label \<^verbatim>\<open>cleanup\<close> (lines 160-200). A failed GPU
  probe and a single kernel-argument call are in neither list: the first is not fatal,
  the second is judged together with the other argument.
\<close>

fun returns_1 :: "api \<Rightarrow> bool" where
  "returns_1 ClGetPlatformIDs = True"
| "returns_1 ClCreateContext = True"
| "returns_1 ClCreateCommandQueue = True"
| "returns_1 (ClCreateProgramWithSource src) = True"
| "returns_1 ClBuildProgram = True"
| "returns_1 (ClCreateKernel name) = True"
| "returns_1 f = False"

fun goes_to_cleanup :: "api \<Rightarrow> bool" where
  "goes_to_cleanup (ClCreateBuffer h) = True"
| "goes_to_cleanup (ClEnqueueNDRangeKernel n) = True"
| "goes_to_cleanup ClEnqueueReadBuffer = True"
| "goes_to_cleanup f = False"

text \<open>The report \<^verbatim>\<open>validate\<close> prints at a mismatching index.\<close>

definition mismatch_report :: "'f float_ops \<Rightarrow> ptr \<Rightarrow> ptr \<Rightarrow> nat \<Rightarrow> 'f machine \<Rightarrow> 'f event list" where
  "mismatch_report ops input output i s =
     [Print ''Error: Element %d did not match expected output.\<newline>'' [IntArg (int i)],
      Print ''Saw %1.4f, expected %1.4f\<newline>''
        [FloatArg (heap s output i), FloatArg (fmul ops (heap s input i) (heap s input i))],
      Flush]"

subsection \<open>Concrete runs\<close>

text \<open>
  For concrete runs the float values are the integers of magnitude below \<open>2 ^ 24\<close>, which
  binary32 represents exactly and on which its products (below \<open>2 ^ 24\<close>) and its
  comparison are those of the integers: every index below 1024 and every square of one
  is such a value.
\<close>

definition exact_ops :: "int float_ops" where
  "exact_ops = \<lparr>fmul = (\<lambda>a b. a * b), fne = (\<lambda>a b. a \<noteq> b), of_index = int\<rparr>"

definition kernel_path :: string where
  "kernel_path = ''/Applications/HelloOpenCL.app/Contents/Resources/kernel.cl''"

definition kernel_url :: string where
  "kernel_url = ''file:///Applications/HelloOpenCL.app/Contents/Resources/kernel.cl''"

text \<open>An example of the text of kernel.cl (the file is not part of the sources).\<close>

definition kernel_text :: string where
  "kernel_text = ''__kernel void square(__global float* input, __global float* output) { size_t idx = get_global_id(0); output[idx] = input[idx] * input[idx]; }''"

text \<open>A run in which every call succeeds and the device squares every value.\<close>

definition env_ok :: "int env" where
  "env_ok =
     \<lparr>platform_err = 0, gpu_err = 0, cpu_err = 0, device_name = ''Apple M1'',
      context_err = 0, queue_err = 0,
      bundle_url = (\<lambda>name. if name = ''kernel.cl'' then Some kernel_url else None),
      url_path = (\<lambda>url. if url = kernel_url then Some kernel_path else None),
      file_contents = (\<lambda>path. if path = kernel_path then Some kernel_text else None),
      program_err = 0, build_err = 0, build_log = [], junk_log = [],
      kernel_err = 0, mem_in_err = 0, mem_out_err = 0, arg0_err = 0, arg1_err = 0,
      enqueue_err = 0, read_err = 0,
      device_out = (\<lambda>i. int i * int i),
      test_in_ptr = 0, test_out_ptr = 1,
      mem0 = (\<lambda>p i. 0)\<rparr>"

text \<open>Neither probe finds a device (\<^verbatim>\<open>CL_DEVICE_NOT_FOUND\<close> is \<open>-1\<close>).\<close>

definition env_no_device :: "int env" where
  "env_no_device = env_ok\<lparr>gpu_err := - 1, cpu_err := - 1\<rparr>"

text \<open>The input buffer cannot be allocated (\<^verbatim>\<open>CL_MEM_OBJECT_ALLOCATION_FAILURE\<close> is \<open>-4\<close>).\<close>

definition env_no_input_buffer :: "int env" where
  "env_no_input_buffer = env_ok\<lparr>mem_in_err := - 4\<rparr>"

text \<open>The bundle holds no kernel.cl.\<close>

definition env_no_resource :: "int env" where
  "env_no_resource = env_ok\<lparr>bundle_url := (\<lambda>name. None)\<rparr>"

text \<open>The build fails (\<^verbatim>\<open>CL_BUILD_PROGRAM_FAILURE\<close> is \<open>-11\<close>) with a one-line log.\<close>

definition env_build_fails :: "int env" where
  "env_build_fails =
     env_ok\<lparr>build_err := - 11, build_log := ''<program source>:1:1: error: unknown type name'',
            junk_log := ''??''\<rparr>"

text \<open>The second kernel argument is refused (\<^verbatim>\<open>CL_INVALID_ARG_VALUE\<close> is \<open>-50\<close>).\<close>

definition env_arg1_fails :: "int env" where
  "env_arg1_fails = env_ok\<lparr>arg1_err := - 50\<rparr>"

text \<open>
  Both kernel arguments are refused, with different codes (\<^verbatim>\<open>CL_INVALID_MEM_OBJECT\<close> is
  \<open>-38\<close>, \<^verbatim>\<open>CL_INVALID_ARG_VALUE\<close> is \<open>-50\<close>).
\<close>

definition env_both_args_fail :: "int env" where
  "env_both_args_fail = env_ok\<lparr>arg0_err := - 38, arg1_err := - 50\<rparr>"

text \<open>Every call succeeds, but the device leaves element 3 of the output at 0.\<close>

definition env_mismatch :: "int env" where
  "env_mismatch = env_ok\<lparr>device_out := (\<lambda>i. if i = 3 then 0 else int i * int i)\<rparr>"

text \<open>Two states for \<^verbatim>\<open>validate\<close>: the input at pointer 0, the output at pointer 1.\<close>

definition state_squared :: "int machine" where
  "state_squared =
     \<lparr>trace = [], heap = (\<lambda>p i. if p = 0 then int i else int i * int i)\<rparr>"

definition state_corrupted :: "int machine" where
  "state_corrupted =
     \<lparr>trace = [],
      heap = (\<lambda>p i. if p = 0 then int i else if i = 2 then 5 else int i * int i)\<rparr>"

section \<open>Basic facts about the stages\<close>

lemma trace_emit [simp]: "trace (emit evs s) = trace s @ evs"
  by (simp add: emit_def)

lemma heap_emit [simp]: "heap (emit evs s) = heap s"
  by (simp add: emit_def)

lemma trace_init_loop [simp]: "trace (init_loop ops p i s) = trace s"
  by (induction ops p i s rule: init_loop.induct) (subst init_loop.simps, simp)

lemma trace_read_back [simp]: "trace (read_back e s) = trace s"
  by (simp add: read_back_def)

lemma validate_loop_cases:
  "validate_loop ops a b i s = (s, 1) \<or>
   (\<exists>k. validate_loop ops a b i s = (emit (mismatch_report ops a b k s) s, 0))"
proof (induction ops a b i s rule: validate_loop.induct)
  case (1 ops inp outp i s)
  show ?case
  proof (cases "i < NUM_VALUES")
    case False
    then show ?thesis by (subst validate_loop.simps) (simp add: validate_loop.simps)
  next
    case True
    show ?thesis
    proof (cases "fne ops (heap s outp i) (fmul ops (heap s inp i) (heap s inp i))")
      case True
      with \<open>i < NUM_VALUES\<close> have "validate_loop ops inp outp i s = (emit (mismatch_report ops inp outp i s) s, 0)"
        by (subst validate_loop.simps) (simp add: mismatch_report_def)
      then show ?thesis by blast
    next
      case False
      with \<open>i < NUM_VALUES\<close> have "validate_loop ops inp outp i s = validate_loop ops inp outp (i + 1) s"
        by (subst validate_loop.simps) simp
      with 1 \<open>i < NUM_VALUES\<close> False show ?thesis by simp
    qed
  qed
qed

lemma validate_cases:
  "validate ops a b s = (s, 1) \<or>
   (\<exists>k. validate ops a b s = (emit (mismatch_report ops a b k s) s, 0))"
  unfolding validate_def by (rule validate_loop_cases)


lemma emit_emit [simp]: "emit a (emit b s) = emit (b @ a) s"
  by (simp add: emit_def)

lemma validate_loop_pass:
  "(\<And>j. i \<le> j \<Longrightarrow> j < NUM_VALUES \<Longrightarrow>
      \<not> fne ops (heap s b j) (fmul ops (heap s a j) (heap s a j)))
   \<Longrightarrow> validate_loop ops a b i s = (s, 1)"
proof (induction ops a b i s rule: validate_loop.induct)
  case (1 ops inp outp i s)
  show ?case
  proof (cases "i < NUM_VALUES")
    case False
    then show ?thesis by (subst validate_loop.simps) simp
  next
    case True
    with "1.prems" [of i]
    have here: "\<not> fne ops (heap s outp i) (fmul ops (heap s inp i) (heap s inp i))"
      by simp
    with True have "validate_loop ops inp outp i s = validate_loop ops inp outp (i + 1) s"
      by (subst validate_loop.simps) simp
    also from True here "1.prems" have "\<dots> = (s, 1)"
      by (intro "1.IH") simp_all
    finally show ?thesis .
  qed
qed

lemma validate_loop_first:
  "i \<le> k \<Longrightarrow> k < NUM_VALUES \<Longrightarrow>
   fne ops (heap s b k) (fmul ops (heap s a k) (heap s a k)) \<Longrightarrow>
   (\<And>j. i \<le> j \<Longrightarrow> j < k \<Longrightarrow>
      \<not> fne ops (heap s b j) (fmul ops (heap s a j) (heap s a j)))
   \<Longrightarrow> validate_loop ops a b i s = (emit (mismatch_report ops a b k s) s, 0)"
proof (induction ops a b i s rule: validate_loop.induct)
  case (1 ops inp outp i s)
  from "1.prems"(1,2) have lt: "i < NUM_VALUES" by simp
  show ?case
  proof (cases "i = k")
    case True
    with lt "1.prems"(3) show ?thesis
      by (subst validate_loop.simps) (simp add: mismatch_report_def)
  next
    case False
    with "1.prems"(1) have ik: "i < k" by simp
    with "1.prems"(4) [of i]
    have here: "\<not> fne ops (heap s outp i) (fmul ops (heap s inp i) (heap s inp i))"
      by simp
    with lt have "validate_loop ops inp outp i s = validate_loop ops inp outp (i + 1) s"
      by (subst validate_loop.simps) simp
    also from lt here ik "1.prems" have "\<dots> = (emit (mismatch_report ops inp outp k s) s, 0)"
      by (intro "1.IH") simp_all
    finally show ?thesis .
  qed
qed

lemma heap_init_loop:
  "heap (init_loop ops p i s) =
     (heap s)(p := (\<lambda>j. if i \<le> j \<and> j < NUM_VALUES then of_index ops j else heap s p j))"
proof (induction ops p i s rule: init_loop.induct)
  case (1 ops test_in i s)
  show ?case
  proof (cases "i < NUM_VALUES")
    case False
    then show ?thesis by (subst init_loop.simps) (auto simp: fun_eq_iff)
  next
    case True
    let ?s = "s\<lparr>heap := (heap s)(test_in := (heap s test_in)(i := of_index ops i))\<rparr>"
    from True have step: "init_loop ops test_in i s = init_loop ops test_in (i + 1) ?s"
      by (subst init_loop.simps) simp
    have "heap (init_loop ops test_in (i + 1) ?s) =
      (heap ?s)(test_in := (\<lambda>j. if i + 1 \<le> j \<and> j < NUM_VALUES then of_index ops j
                                 else heap ?s test_in j))"
      by (rule "1.IH" [OF True])
    with step have "heap (init_loop ops test_in i s) =
      (heap ?s)(test_in := (\<lambda>j. if i + 1 \<le> j \<and> j < NUM_VALUES then of_index ops j
                                 else heap ?s test_in j))"
      by (simp only:)
    with True show ?thesis
      by (auto simp: fun_eq_iff)
  qed
qed

lemma heap_read_back:
  "heap (read_back e s) =
     (if read_err e = CL_SUCCESS then
        (heap s)(test_out_ptr e :=
           (\<lambda>i. if i < NUM_VALUES then device_out e i else heap s (test_out_ptr e) i))
      else heap s)"
  by (simp add: read_back_def)

lemma main_validate_outcome:
  obtains (valid)
    "validate ops (test_in_ptr e) (test_out_ptr e) s = (s, 1)"
    "main_validate ops e s =
       (emit [Print ''All values were properly squared!\<newline>'' [], Release Mem_in, Release Mem_out, Release Kernel, Release Program, Release Queue, Release Context] s, 0)"
  | (mismatch) k where
    "validate ops (test_in_ptr e) (test_out_ptr e) s =
       (emit (mismatch_report ops (test_in_ptr e) (test_out_ptr e) k s) s, 0)"
    "main_validate ops e s =
       (emit (mismatch_report ops (test_in_ptr e) (test_out_ptr e) k s @ [Release Mem_in, Release Mem_out, Release Kernel, Release Program, Release Queue, Release Context]) s, 0)"
proof -
  from validate_cases [of ops "test_in_ptr e" "test_out_ptr e" s]
  show thesis
  proof (elim disjE exE)
    assume "validate ops (test_in_ptr e) (test_out_ptr e) s = (s, 1)"
    then show thesis by (intro valid) (simp_all add: main_validate_def cleanup_def)
  next
    fix k
    assume "validate ops (test_in_ptr e) (test_out_ptr e) s =
      (emit (mismatch_report ops (test_in_ptr e) (test_out_ptr e) k s) s, 0)"
    then show thesis by (intro mismatch [of k]) (simp_all add: main_validate_def cleanup_def)
  qed
qed

lemma main_paths:
  fixes ops :: "'f float_ops" and e :: "'f env"
  defines "t \<equiv> run_trace ops e"
    and "st \<equiv> exit_status ops e"
    and "p1 \<equiv> Call ClGetPlatformIDs CL_SUCCESS #
      (if gpu_err e = CL_SUCCESS then [Call (ClGetDeviceIDs CL_DEVICE_TYPE_GPU) CL_SUCCESS]
       else [Call (ClGetDeviceIDs CL_DEVICE_TYPE_GPU) (gpu_err e),
             Print ''No GPU found, trying CPU...\<newline>'' [],
             Call (ClGetDeviceIDs CL_DEVICE_TYPE_CPU) CL_SUCCESS]) @
      [GetDeviceInfo, Print ''Using device: %s\<newline>'' [StrArg (device_name e)]]"
  defines "p2 \<equiv> p1 @ [Call ClCreateContext CL_SUCCESS, Call ClCreateCommandQueue CL_SUCCESS,
      ResourceLookup ''kernel.cl'']"
  defines "p4 \<equiv> \<lambda>src. p2 @ [Call (ClCreateProgramWithSource src) CL_SUCCESS,
      Call ClBuildProgram CL_SUCCESS, Call (ClCreateKernel ''square'') CL_SUCCESS]"
  defines "p6 \<equiv> \<lambda>src. p4 src @ [Call (ClCreateBuffer Mem_in) CL_SUCCESS,
      Call (ClCreateBuffer Mem_out) CL_SUCCESS,
      Call (ClSetKernelArg 0 Mem_in) CL_SUCCESS, Call (ClSetKernelArg 1 Mem_out) CL_SUCCESS]"
  defines "p7 \<equiv> \<lambda>src. p6 src @ [Call (ClEnqueueNDRangeKernel NUM_VALUES) CL_SUCCESS,
      Call ClEnqueueReadBuffer CL_SUCCESS]"
  obtains
    (p_platform) "platform_err e \<noteq> CL_SUCCESS" "st = 1"
      "t = [Call ClGetPlatformIDs (platform_err e),
            Print ''Error getting platform: %d\<newline>'' [IntArg (sint (platform_err e))]]"
  | (p_device) "platform_err e = CL_SUCCESS" "gpu_err e \<noteq> CL_SUCCESS"
      "cpu_err e \<noteq> CL_SUCCESS" "st = 1"
      "t = [Call ClGetPlatformIDs CL_SUCCESS,
            Call (ClGetDeviceIDs CL_DEVICE_TYPE_GPU) (gpu_err e),
            Print ''No GPU found, trying CPU...\<newline>'' [],
            Call (ClGetDeviceIDs CL_DEVICE_TYPE_CPU) (cpu_err e),
            Print ''No OpenCL devices found\<newline>'' []]"
  | (p_context) "platform_err e = CL_SUCCESS" "gpu_err e = CL_SUCCESS \<or> cpu_err e = CL_SUCCESS"
      "context_err e \<noteq> CL_SUCCESS" "st = 1"
      "t = p1 @ [Call ClCreateContext (context_err e),
                 Print ''Error creating context: %d\<newline>'' [IntArg (sint (context_err e))]]"
  | (p_queue) "platform_err e = CL_SUCCESS" "gpu_err e = CL_SUCCESS \<or> cpu_err e = CL_SUCCESS"
      "context_err e = CL_SUCCESS"
      "queue_err e \<noteq> CL_SUCCESS" "st = 1"
      "t = p1 @ [Call ClCreateContext CL_SUCCESS, Call ClCreateCommandQueue (queue_err e),
                 Print ''Error creating command queue: %d\<newline>'' [IntArg (sint (queue_err e))],
                 Release Context]"
  | (p_resource) "platform_err e = CL_SUCCESS" "gpu_err e = CL_SUCCESS \<or> cpu_err e = CL_SUCCESS"
      "context_err e = CL_SUCCESS" "queue_err e = CL_SUCCESS"
      "getBundleResourcePath e ''kernel.cl'' = None" "st = 1"
      "t = p2 @ [Print ''Could not find %s in bundle\<newline>'' [StrArg ''kernel.cl''],
                 Release Queue, Release Context]"
  | (p_program) src where "platform_err e = CL_SUCCESS"
      "gpu_err e = CL_SUCCESS \<or> cpu_err e = CL_SUCCESS"
      "getBundleResourcePath e ''kernel.cl'' = Some src"
      "context_err e = CL_SUCCESS" "queue_err e = CL_SUCCESS"
      "program_err e \<noteq> CL_SUCCESS" "st = 1"
      "t = p2 @ [Call (ClCreateProgramWithSource src) (program_err e),
                 Print ''Error creating program: %d\<newline>'' [IntArg (sint (program_err e))],
                 Release Queue, Release Context]"
  | (p_build) src where "platform_err e = CL_SUCCESS"
      "gpu_err e = CL_SUCCESS \<or> cpu_err e = CL_SUCCESS"
      "getBundleResourcePath e ''kernel.cl'' = Some src"
      "context_err e = CL_SUCCESS" "queue_err e = CL_SUCCESS" "program_err e = CL_SUCCESS"
      "build_err e \<noteq> CL_SUCCESS" "st = 1"
      "t = p2 @ [Call (ClCreateProgramWithSource src) CL_SUCCESS,
                 Call ClBuildProgram (build_err e),
                 Print ''Error building program: %d\<newline>'' [IntArg (sint (build_err e))],
                 GetProgramBuildInfo 0, GetProgramBuildInfo (length (build_log e) + 1),
                 Print ''Build log:\<newline>%s\<newline>'' [StrArg (build_log e)],
                 Release Program, Release Queue, Release Context]"
  | (p_kernel) src where "platform_err e = CL_SUCCESS"
      "gpu_err e = CL_SUCCESS \<or> cpu_err e = CL_SUCCESS"
      "getBundleResourcePath e ''kernel.cl'' = Some src"
      "context_err e = CL_SUCCESS" "queue_err e = CL_SUCCESS" "program_err e = CL_SUCCESS"
      "build_err e = CL_SUCCESS"
      "kernel_err e \<noteq> CL_SUCCESS" "st = 1"
      "t = p2 @ [Call (ClCreateProgramWithSource src) CL_SUCCESS,
                 Call ClBuildProgram CL_SUCCESS,
                 Call (ClCreateKernel ''square'') (kernel_err e),
                 Print ''Error creating kernel: %d\<newline>'' [IntArg (sint (kernel_err e))],
                 Release Program, Release Queue, Release Context]"
  | (p_mem_in) src where "platform_err e = CL_SUCCESS"
      "gpu_err e = CL_SUCCESS \<or> cpu_err e = CL_SUCCESS"
      "getBundleResourcePath e ''kernel.cl'' = Some src"
      "context_err e = CL_SUCCESS" "queue_err e = CL_SUCCESS" "program_err e = CL_SUCCESS"
      "build_err e = CL_SUCCESS" "kernel_err e = CL_SUCCESS"
      "mem_in_err e \<noteq> CL_SUCCESS" "st = 0"
      "t = p4 src @ [Call (ClCreateBuffer Mem_in) (mem_in_err e),
                 Print ''Error creating input buffer: %d\<newline>'' [IntArg (sint (mem_in_err e))],
                 Release Kernel, Release Program, Release Queue, Release Context]"
  | (p_mem_out) src where "platform_err e = CL_SUCCESS"
      "gpu_err e = CL_SUCCESS \<or> cpu_err e = CL_SUCCESS"
      "getBundleResourcePath e ''kernel.cl'' = Some src"
      "context_err e = CL_SUCCESS" "queue_err e = CL_SUCCESS" "program_err e = CL_SUCCESS"
      "build_err e = CL_SUCCESS" "kernel_err e = CL_SUCCESS" "mem_in_err e = CL_SUCCESS"
      "mem_out_err e \<noteq> CL_SUCCESS" "st = 0"
      "t = p4 src @ [Call (ClCreateBuffer Mem_in) CL_SUCCESS,
                 Call (ClCreateBuffer Mem_out) (mem_out_err e),
                 Print ''Error creating output buffer: %d\<newline>'' [IntArg (sint (mem_out_err e))],
                 Release Mem_in, Release Kernel, Release Program, Release Queue, Release Context]"
  | (p_args) src where "platform_err e = CL_SUCCESS"
      "gpu_err e = CL_SUCCESS \<or> cpu_err e = CL_SUCCESS"
      "getBundleResourcePath e ''kernel.cl'' = Some src"
      "context_err e = CL_SUCCESS" "queue_err e = CL_SUCCESS" "program_err e = CL_SUCCESS"
      "build_err e = CL_SUCCESS" "kernel_err e = CL_SUCCESS" "mem_in_err e = CL_SUCCESS"
      "mem_out_err e = CL_SUCCESS"
      "arg0_err e OR arg1_err e \<noteq> CL_SUCCESS" "st = 0"
      "t = p4 src @ [Call (ClCreateBuffer Mem_in) CL_SUCCESS,
                 Call (ClCreateBuffer Mem_out) CL_SUCCESS,
                 Call (ClSetKernelArg 0 Mem_in) (arg0_err e),
                 Call (ClSetKernelArg 1 Mem_out) (arg1_err e),
                 Print ''Error setting kernel arguments: %d\<newline>''
                   [IntArg (sint (arg0_err e OR arg1_err e))],
                 Release Mem_in, Release Mem_out, Release Kernel, Release Program, Release Queue, Release Context]"
  | (p_enqueue) src where "platform_err e = CL_SUCCESS"
      "gpu_err e = CL_SUCCESS \<or> cpu_err e = CL_SUCCESS"
      "getBundleResourcePath e ''kernel.cl'' = Some src"
      "context_err e = CL_SUCCESS" "queue_err e = CL_SUCCESS" "program_err e = CL_SUCCESS"
      "build_err e = CL_SUCCESS" "kernel_err e = CL_SUCCESS" "mem_in_err e = CL_SUCCESS"
      "mem_out_err e = CL_SUCCESS" "arg0_err e = CL_SUCCESS" "arg1_err e = CL_SUCCESS"
      "enqueue_err e \<noteq> CL_SUCCESS" "st = 0"
      "t = p6 src @ [Call (ClEnqueueNDRangeKernel NUM_VALUES) (enqueue_err e),
                 Print ''Error executing kernel: %d\<newline>'' [IntArg (sint (enqueue_err e))],
                 Release Mem_in, Release Mem_out, Release Kernel, Release Program, Release Queue, Release Context]"
  | (p_read) src where "platform_err e = CL_SUCCESS"
      "gpu_err e = CL_SUCCESS \<or> cpu_err e = CL_SUCCESS"
      "getBundleResourcePath e ''kernel.cl'' = Some src"
      "context_err e = CL_SUCCESS" "queue_err e = CL_SUCCESS" "program_err e = CL_SUCCESS"
      "build_err e = CL_SUCCESS" "kernel_err e = CL_SUCCESS" "mem_in_err e = CL_SUCCESS"
      "mem_out_err e = CL_SUCCESS" "arg0_err e = CL_SUCCESS" "arg1_err e = CL_SUCCESS"
      "enqueue_err e = CL_SUCCESS"
      "read_err e \<noteq> CL_SUCCESS" "st = 0"
      "t = p6 src @ [Call (ClEnqueueNDRangeKernel NUM_VALUES) CL_SUCCESS,
                 Call ClEnqueueReadBuffer (read_err e),
                 Print ''Error reading results: %d\<newline>'' [IntArg (sint (read_err e))],
                 Release Mem_in, Release Mem_out, Release Kernel, Release Program, Release Queue, Release Context]"
  | (p_valid) src s where "platform_err e = CL_SUCCESS"
      "gpu_err e = CL_SUCCESS \<or> cpu_err e = CL_SUCCESS"
      "getBundleResourcePath e ''kernel.cl'' = Some src"
      "context_err e = CL_SUCCESS" "queue_err e = CL_SUCCESS" "program_err e = CL_SUCCESS"
      "build_err e = CL_SUCCESS" "kernel_err e = CL_SUCCESS" "mem_in_err e = CL_SUCCESS"
      "mem_out_err e = CL_SUCCESS" "arg0_err e = CL_SUCCESS" "arg1_err e = CL_SUCCESS"
      "enqueue_err e = CL_SUCCESS" "read_err e = CL_SUCCESS" "st = 0"
      "t = p7 src @ [Print ''All values were properly squared!\<newline>'' [], Release Mem_in, Release Mem_out, Release Kernel, Release Program, Release Queue, Release Context]"
      "\<forall>i<NUM_VALUES. heap s (test_out_ptr e) i = device_out e i"
      "test_in_ptr e \<noteq> test_out_ptr e \<longrightarrow>
         (\<forall>i<NUM_VALUES. heap s (test_in_ptr e) i = of_index ops i)"
      "validate ops (test_in_ptr e) (test_out_ptr e) s = (s, 1)"
  | (p_mismatch) src k s where "platform_err e = CL_SUCCESS"
      "gpu_err e = CL_SUCCESS \<or> cpu_err e = CL_SUCCESS"
      "getBundleResourcePath e ''kernel.cl'' = Some src"
      "context_err e = CL_SUCCESS" "queue_err e = CL_SUCCESS" "program_err e = CL_SUCCESS"
      "build_err e = CL_SUCCESS" "kernel_err e = CL_SUCCESS" "mem_in_err e = CL_SUCCESS"
      "mem_out_err e = CL_SUCCESS" "arg0_err e = CL_SUCCESS" "arg1_err e = CL_SUCCESS"
      "enqueue_err e = CL_SUCCESS" "read_err e = CL_SUCCESS" "st = 0"
      "t = p7 src @ mismatch_report ops (test_in_ptr e) (test_out_ptr e) k s @ [Release Mem_in, Release Mem_out, Release Kernel, Release Program, Release Queue, Release Context]"
      "\<forall>i<NUM_VALUES. heap s (test_out_ptr e) i = device_out e i"
      "test_in_ptr e \<noteq> test_out_ptr e \<longrightarrow>
         (\<forall>i<NUM_VALUES. heap s (test_in_ptr e) i = of_index ops i)"
      "validate ops (test_in_ptr e) (test_out_ptr e) s =
         (emit (mismatch_report ops (test_in_ptr e) (test_out_ptr e) k s) s, 0)"
proof -
  note defs = t_def st_def run_trace_def exit_status_def main_def select_device_def
    main_context_def main_program_def main_buffers_def cleanup_def Let_def
    build_log_size_def build_log_value_def p1_def p2_def p4_def p6_def p7_def
  show thesis
  proof (cases "platform_err e = CL_SUCCESS")
    case False
    then show thesis by (intro p_platform) (simp_all add: defs)
  next
    case plat: True
    show thesis
    proof (cases "gpu_err e = CL_SUCCESS \<or> cpu_err e = CL_SUCCESS")
      case False
      with plat show thesis by (intro p_device) (simp_all add: defs)
    next
      case dev: True
      show thesis
      proof (cases "context_err e = CL_SUCCESS")
        case False
        with plat dev show thesis by (intro p_context) (auto simp add: defs)
      next
        case ctx: True
        show thesis
        proof (cases "queue_err e = CL_SUCCESS")
          case False
          with plat dev ctx show thesis by (intro p_queue) (auto simp add: defs)
        next
          case qu: True
          show thesis
          proof (cases "getBundleResourcePath e ''kernel.cl''")
            case None
            with plat dev ctx qu show thesis by (intro p_resource) (auto simp add: defs)
          next
            case (Some src)
            note pre = plat dev ctx qu Some
            consider
                (a) "program_err e \<noteq> CL_SUCCESS"
              | (b) "program_err e = CL_SUCCESS" "build_err e \<noteq> CL_SUCCESS"
              | (c) "program_err e = CL_SUCCESS" "build_err e = CL_SUCCESS"
                    "kernel_err e \<noteq> CL_SUCCESS"
              | (d) "program_err e = CL_SUCCESS" "build_err e = CL_SUCCESS"
                    "kernel_err e = CL_SUCCESS" "mem_in_err e \<noteq> CL_SUCCESS"
              | (f) "program_err e = CL_SUCCESS" "build_err e = CL_SUCCESS"
                    "kernel_err e = CL_SUCCESS" "mem_in_err e = CL_SUCCESS"
                    "mem_out_err e \<noteq> CL_SUCCESS"
              | (g) "program_err e = CL_SUCCESS" "build_err e = CL_SUCCESS"
                    "kernel_err e = CL_SUCCESS" "mem_in_err e = CL_SUCCESS"
                    "mem_out_err e = CL_SUCCESS" "arg0_err e OR arg1_err e \<noteq> CL_SUCCESS"
              | (h) "program_err e = CL_SUCCESS" "build_err e = CL_SUCCESS"
                    "kernel_err e = CL_SUCCESS" "mem_in_err e = CL_SUCCESS"
                    "mem_out_err e = CL_SUCCESS" "arg0_err e OR arg1_err e = CL_SUCCESS"
                    "enqueue_err e \<noteq> CL_SUCCESS"
              | (i) "program_err e = CL_SUCCESS" "build_err e = CL_SUCCESS"
                    "kernel_err e = CL_SUCCESS" "mem_in_err e = CL_SUCCESS"
                    "mem_out_err e = CL_SUCCESS" "arg0_err e OR arg1_err e = CL_SUCCESS"
                    "enqueue_err e = CL_SUCCESS" "read_err e \<noteq> CL_SUCCESS"
              | (j) "program_err e = CL_SUCCESS" "build_err e = CL_SUCCESS"
                    "kernel_err e = CL_SUCCESS" "mem_in_err e = CL_SUCCESS"
                    "mem_out_err e = CL_SUCCESS" "arg0_err e OR arg1_err e = CL_SUCCESS"
                    "enqueue_err e = CL_SUCCESS" "read_err e = CL_SUCCESS"
              by blast
            then show thesis
            proof cases
              case a
              with pre show thesis by (intro p_program [of src]) (auto simp add: defs)
            next
              case b
              with pre show thesis by (intro p_build [of src]) (auto simp add: defs)
            next
              case c
              with pre show thesis by (intro p_kernel [of src]) (auto simp add: defs)
            next
              case d
              with pre show thesis by (intro p_mem_in [of src]) (auto simp add: defs)
            next
              case f
              with pre show thesis by (intro p_mem_out [of src]) (auto simp add: defs)
            next
              case g
              with pre show thesis by (intro p_args [of src]) (auto simp add: defs)
            next
              case h
              then have args: "arg0_err e = CL_SUCCESS" "arg1_err e = CL_SUCCESS"
                by (simp_all add: CL_SUCCESS_def or_eq_0_iff)
              with pre h show thesis by (intro p_enqueue [of src]) (auto simp add: defs)
            next
              case i
              then have args: "arg0_err e = CL_SUCCESS" "arg1_err e = CL_SUCCESS"
                by (simp_all add: CL_SUCCESS_def or_eq_0_iff)
              with pre i show thesis by (intro p_read [of src]) (auto simp add: defs)
            next
              case j
              then have args: "arg0_err e = CL_SUCCESS" "arg1_err e = CL_SUCCESS"
                by (simp_all add: CL_SUCCESS_def or_eq_0_iff)
              have "\<exists>S. main ops e = main_validate ops e S \<and> trace S = p7 src \<and>
                heap S = heap (read_back e (init_loop ops (test_in_ptr e) 0
                                 \<lparr>trace = [], heap = mem0 e\<rparr>))"
              proof (cases "gpu_err e = CL_SUCCESS")
                case True
                with pre j args show ?thesis
                  apply (simp add: defs)
                  apply (intro exI conjI, rule refl)
                   apply simp
                  apply (simp add: heap_read_back heap_init_loop cong: if_cong)
                  done
              next
                case False
                with pre j args show ?thesis
                  apply (simp add: defs)
                  apply (intro exI conjI, rule refl)
                   apply simp
                  apply (simp add: heap_read_back heap_init_loop cong: if_cong)
                  done
              qed
              then obtain S where S: "main ops e = main_validate ops e S" "trace S = p7 src"
                and hp: "heap S = heap (read_back e (init_loop ops (test_in_ptr e) 0
                                 \<lparr>trace = [], heap = mem0 e\<rparr>))"
                by blast
              from hp j have out: "\<forall>i<NUM_VALUES. heap S (test_out_ptr e) i = device_out e i"
                by (simp add: heap_read_back)
              from hp j have inp: "test_in_ptr e \<noteq> test_out_ptr e \<longrightarrow>
                  (\<forall>i<NUM_VALUES. heap S (test_in_ptr e) i = of_index ops i)"
                by (simp add: heap_read_back heap_init_loop)
              show thesis
              proof (rule main_validate_outcome [of ops e S])
                assume "validate ops (test_in_ptr e) (test_out_ptr e) S = (S, 1)"
                  and "main_validate ops e S =
                  (emit [Print ''All values were properly squared!\<newline>'' [],
                         Release Mem_in, Release Mem_out,
                         Release Kernel, Release Program, Release Queue, Release Context] S, 0)"
                with S pre j args out inp show thesis
                  by (intro p_valid [of src S])
                    (simp_all add: t_def st_def run_trace_def exit_status_def)
              next
                fix k
                assume "validate ops (test_in_ptr e) (test_out_ptr e) S =
                    (emit (mismatch_report ops (test_in_ptr e) (test_out_ptr e) k S) S, 0)"
                  and "main_validate ops e S =
                  (emit (mismatch_report ops (test_in_ptr e) (test_out_ptr e) k S @
                         [Release Mem_in, Release Mem_out,
                          Release Kernel, Release Program, Release Queue, Release Context]) S, 0)"
                with S pre j args out inp show thesis
                  by (intro p_mismatch [of src k S])
                    (simp_all add: t_def st_def run_trace_def exit_status_def)
              qed
            qed
          qed
        qed
      qed
    qed
  qed
qed

lemma validate_loop_returns_1:
  "snd (validate_loop ops a b i s) = 1 \<longleftrightarrow>
   (\<forall>j. i \<le> j \<and> j < NUM_VALUES \<longrightarrow>
      \<not> fne ops (heap s b j) (fmul ops (heap s a j) (heap s a j)))"
proof
  assume r: "snd (validate_loop ops a b i s) = 1"
  show "\<forall>j. i \<le> j \<and> j < NUM_VALUES \<longrightarrow>
      \<not> fne ops (heap s b j) (fmul ops (heap s a j) (heap s a j))"
  proof (rule ccontr)
    assume "\<not> ?thesis"
    then have ex: "\<exists>j. i \<le> j \<and> j < NUM_VALUES \<and>
       fne ops (heap s b j) (fmul ops (heap s a j) (heap s a j))"
      by blast
    define k where "k = (LEAST j. i \<le> j \<and> j < NUM_VALUES \<and>
       fne ops (heap s b j) (fmul ops (heap s a j) (heap s a j)))"
    from ex have k: "i \<le> k" "k < NUM_VALUES"
      "fne ops (heap s b k) (fmul ops (heap s a k) (heap s a k))"
      unfolding k_def by (metis (mono_tags, lifting) LeastI)+
    have least: "\<not> fne ops (heap s b j) (fmul ops (heap s a j) (heap s a j))"
      if "i \<le> j" "j < k" for j
    proof
      assume "fne ops (heap s b j) (fmul ops (heap s a j) (heap s a j))"
      with that k(2) have "k \<le> j"
        unfolding k_def by (intro Least_le) simp
      with that show False by simp
    qed
    from validate_loop_first [OF k least] r show False by simp
  qed
next
  assume "\<forall>j. i \<le> j \<and> j < NUM_VALUES \<longrightarrow>
      \<not> fne ops (heap s b j) (fmul ops (heap s a j) (heap s a j))"
  then show "snd (validate_loop ops a b i s) = 1"
    by (simp add: validate_loop_pass)
qed

section \<open>The validation step\<close>

text \<open>
  Claim C3. Given the input array populated with \<^verbatim>\<open>input[i] = (float)i\<close> for every
  index below 1024, \<^verbatim>\<open>validate\<close> returns 1 (success) if and only if
  \<^verbatim>\<open>output[i] == input[i] * input[i]\<close> holds, as a float comparison, at every index below
  1024; and when index \<open>k\<close> is the first one where the comparison fails, it prints that
  index, the value seen and the value expected, flushes, and returns 0 (failure).
\<close>

theorem validate_reports:
  assumes "\<forall>i<NUM_VALUES. heap s inp i = of_index ops i"
  shows "(snd (validate ops inp outp s) = 1 \<longleftrightarrow>
          (\<forall>i<NUM_VALUES.
             feq ops (heap s outp i) (fmul ops (of_index ops i) (of_index ops i)))) \<and>
         (\<forall>k<NUM_VALUES.
            \<not> feq ops (heap s outp k) (fmul ops (of_index ops k) (of_index ops k)) \<and>
            (\<forall>j<k. feq ops (heap s outp j) (fmul ops (of_index ops j) (of_index ops j)))
            \<longrightarrow> validate ops inp outp s =
              (emit [Print ''Error: Element %d did not match expected output.\<newline>''
                       [IntArg (int k)],
                     Print ''Saw %1.4f, expected %1.4f\<newline>''
                       [FloatArg (heap s outp k),
                        FloatArg (fmul ops (of_index ops k) (of_index ops k))],
                     Flush] s, 0))"
proof (intro conjI allI impI)
  from assms show "snd (validate ops inp outp s) = 1 \<longleftrightarrow>
          (\<forall>i<NUM_VALUES.
             feq ops (heap s outp i) (fmul ops (of_index ops i) (of_index ops i)))"
    unfolding validate_def validate_loop_returns_1 feq_def by auto
next
  fix k
  assume k: "k < NUM_VALUES"
    and m: "\<not> feq ops (heap s outp k) (fmul ops (of_index ops k) (of_index ops k)) \<and>
            (\<forall>j<k. feq ops (heap s outp j) (fmul ops (of_index ops j) (of_index ops j)))"
  from assms k have in_k: "heap s inp k = of_index ops k" by simp
  have "validate_loop ops inp outp 0 s = (emit (mismatch_report ops inp outp k s) s, 0)"
  proof (rule validate_loop_first)
    show "0 \<le> k" by simp
    show "k < NUM_VALUES" by (rule k)
    from m in_k show "fne ops (heap s outp k) (fmul ops (heap s inp k) (heap s inp k))"
      by (simp add: feq_def)
  next
    fix j assume "j < k"
    with k assms have "heap s inp j = of_index ops j" by simp
    with m \<open>j < k\<close> show "\<not> fne ops (heap s outp j) (fmul ops (heap s inp j) (heap s inp j))"
      by (simp add: feq_def)
  qed
  with in_k show "validate ops inp outp s =
              (emit [Print ''Error: Element %d did not match expected output.\<newline>''
                       [IntArg (int k)],
                     Print ''Saw %1.4f, expected %1.4f\<newline>''
                       [FloatArg (heap s outp k),
                        FloatArg (fmul ops (of_index ops k) (of_index ops k))],
                     Flush] s, 0)"
    by (simp add: validate_def mismatch_report_def)
qed

theorem validate_reports_witness:
  "snd (validate exact_ops 0 1 state_squared) = 1 \<and>
   validate exact_ops 0 1 state_corrupted =
     (emit [Print ''Error: Element %d did not match expected output.\<newline>'' [IntArg 2],
            Print ''Saw %1.4f, expected %1.4f\<newline>'' [FloatArg 5, FloatArg 4],
            Flush] state_corrupted, 0)"
proof
  have "\<forall>i<NUM_VALUES. heap state_squared 0 i = of_index exact_ops i"
    by (simp add: state_squared_def exact_ops_def)
  from validate_reports [OF this, of 1]
  show "snd (validate exact_ops 0 1 state_squared) = 1"
    by (simp add: state_squared_def exact_ops_def feq_def)
next
  have "\<forall>i<NUM_VALUES. heap state_corrupted 0 i = of_index exact_ops i"
    by (simp add: state_corrupted_def exact_ops_def)
  from validate_reports [OF this, of 1, THEN conjunct2, rule_format, of 2]
  show "validate exact_ops 0 1 state_corrupted =
     (emit [Print ''Error: Element %d did not match expected output.\<newline>'' [IntArg 2],
            Print ''Saw %1.4f, expected %1.4f\<newline>'' [FloatArg 5, FloatArg 4],
            Flush] state_corrupted, 0)"
    by (simp add: state_corrupted_def exact_ops_def feq_def NUM_VALUES_def)
qed

text \<open>
  Claim C10. \<^verbatim>\<open>validate\<close> is read-only on its data: for every input and output
  pointer and every state, host memory after the call is host memory before it (so both
  arrays are unchanged, also when they overlap); all it adds to the trace is output
  (\<^verbatim>\<open>fprintf\<close> and \<^verbatim>\<open>fflush\<close>), and it returns 0 or 1.
\<close>

theorem validate_read_only:
  "heap (fst (validate ops inp outp s)) = heap s \<and>
   (\<exists>evs. trace (fst (validate ops inp outp s)) = trace s @ evs \<and> list_all is_output evs) \<and>
   (snd (validate ops inp outp s) = 0 \<or> snd (validate ops inp outp s) = 1)"
  using validate_cases [of ops inp outp s]
  by (auto simp: mismatch_report_def)

section \<open>Whole runs\<close>

text \<open>The facts that evaluate the concrete environments.\<close>

lemmas env_simps = env_ok_def getBundleResourcePath_def CL_SUCCESS_def

text \<open>
  Claim C5. On every exit path each of the six OpenCL objects (input buffer, output
  buffer, kernel, program, command queue, context) is released exactly once when it was
  created in the run and never when it was not; and in a run that created all six, the
  releases happen in the order input buffer, output buffer, kernel, program, queue,
  context.
\<close>

theorem released_exactly_once:
  "releases (run_trace ops e) h = (if created (run_trace ops e) h then 1 else 0) \<and>
   (created (run_trace ops e) Context \<and> created (run_trace ops e) Queue \<and>
    created (run_trace ops e) Program \<and> created (run_trace ops e) Kernel \<and>
    created (run_trace ops e) Mem_in \<and> created (run_trace ops e) Mem_out \<longrightarrow>
    release_order (run_trace ops e) = [Mem_in, Mem_out, Kernel, Program, Queue, Context])"
  by (rule main_paths [where ops = ops and e = e]; cases h;
      simp add: releases_def created_def release_order_def mismatch_report_def)

theorem released_exactly_once_witness:
  "created (run_trace exact_ops env_ok) Context \<and> created (run_trace exact_ops env_ok) Queue \<and>
   created (run_trace exact_ops env_ok) Program \<and> created (run_trace exact_ops env_ok) Kernel \<and>
   created (run_trace exact_ops env_ok) Mem_in \<and> created (run_trace exact_ops env_ok) Mem_out \<and>
   releases (run_trace exact_ops env_ok) Mem_in = 1 \<and>
   releases (run_trace exact_ops env_ok) Context = 1 \<and>
   release_order (run_trace exact_ops env_ok) = [Mem_in, Mem_out, Kernel, Program, Queue, Context]"
proof -
  have c: "created (run_trace exact_ops env_ok) Context \<and> created (run_trace exact_ops env_ok) Queue \<and>
    created (run_trace exact_ops env_ok) Program \<and> created (run_trace exact_ops env_ok) Kernel \<and>
    created (run_trace exact_ops env_ok) Mem_in \<and> created (run_trace exact_ops env_ok) Mem_out"
    by (rule main_paths [where ops = exact_ops and e = env_ok];
        simp add: env_simps created_def mismatch_report_def)
  with released_exactly_once [of exact_ops env_ok Mem_in]
    released_exactly_once [of exact_ops env_ok Context]
  show ?thesis by simp
qed

text \<open>
  Claim C6. Once a platform is found, the run probes for a GPU first and probes for a CPU
  only if the GPU probe failed. If both probes fail, the run prints
  \<^verbatim>\<open>No OpenCL devices found\<close> and exits with status 1, having done nothing but the
  platform lookup, the two probes and two prints: no context, queue or program work.
\<close>

theorem device_selection:
  assumes "platform_err e = CL_SUCCESS"
  shows "probes (run_trace ops e) =
           (if gpu_err e = CL_SUCCESS then [CL_DEVICE_TYPE_GPU]
            else [CL_DEVICE_TYPE_GPU, CL_DEVICE_TYPE_CPU]) \<and>
         (gpu_err e \<noteq> CL_SUCCESS \<and> cpu_err e \<noteq> CL_SUCCESS \<longrightarrow>
            exit_status ops e = 1 \<and>
            \<not> list_ex later_work (run_trace ops e) \<and>
            run_trace ops e =
              [Call ClGetPlatformIDs CL_SUCCESS,
               Call (ClGetDeviceIDs CL_DEVICE_TYPE_GPU) (gpu_err e),
               Print ''No GPU found, trying CPU...\<newline>'' [],
               Call (ClGetDeviceIDs CL_DEVICE_TYPE_CPU) (cpu_err e),
               Print ''No OpenCL devices found\<newline>'' []])"
  using assms
  by (rule_tac main_paths [where ops = ops and e = e];
      simp add: probes_def mismatch_report_def)

theorem device_selection_witness:
  "probes (run_trace exact_ops env_no_device) = [CL_DEVICE_TYPE_GPU, CL_DEVICE_TYPE_CPU] \<and>
   exit_status exact_ops env_no_device = 1 \<and>
   run_trace exact_ops env_no_device =
     [Call ClGetPlatformIDs 0,
      Call (ClGetDeviceIDs CL_DEVICE_TYPE_GPU) (- 1),
      Print ''No GPU found, trying CPU...\<newline>'' [],
      Call (ClGetDeviceIDs CL_DEVICE_TYPE_CPU) (- 1),
      Print ''No OpenCL devices found\<newline>'' []] \<and>
   probes (run_trace exact_ops env_ok) = [CL_DEVICE_TYPE_GPU]"
proof -
  have "platform_err env_no_device = CL_SUCCESS"
    by (simp add: env_no_device_def env_simps)
  from device_selection [OF this, of exact_ops]
  have "probes (run_trace exact_ops env_no_device) = [CL_DEVICE_TYPE_GPU, CL_DEVICE_TYPE_CPU] \<and>
    exit_status exact_ops env_no_device = 1 \<and>
    run_trace exact_ops env_no_device =
     [Call ClGetPlatformIDs 0,
      Call (ClGetDeviceIDs CL_DEVICE_TYPE_GPU) (- 1),
      Print ''No GPU found, trying CPU...\<newline>'' [],
      Call (ClGetDeviceIDs CL_DEVICE_TYPE_CPU) (- 1),
      Print ''No OpenCL devices found\<newline>'' []]"
    by (simp add: env_no_device_def env_simps probes_def)
  moreover
  have "platform_err env_ok = CL_SUCCESS"
    by (simp add: env_simps)
  from device_selection [OF this, of exact_ops]
  have "probes (run_trace exact_ops env_ok) = [CL_DEVICE_TYPE_GPU]"
    by (simp add: env_simps)
  ultimately show ?thesis by blast
qed

text \<open>
  Claim C7. If the run looks the kernel source up and the lookup gives no path, the
  process exits with status 1; from the creation of the context on, the run is exactly:
  context created, queue created, the lookup, the diagnostic, the release of the queue,
  the release of the context. No program is created or built.
\<close>

theorem missing_kernel_source:
  assumes "ResourceLookup ''kernel.cl'' \<in> set (run_trace ops e)"
    and "getBundleResourcePath e ''kernel.cl'' = None"
  shows "exit_status ops e = 1 \<and>
         dropWhile (\<lambda>ev. ev \<noteq> Call ClCreateContext CL_SUCCESS) (run_trace ops e) =
           [Call ClCreateContext CL_SUCCESS,
            Call ClCreateCommandQueue CL_SUCCESS,
            ResourceLookup ''kernel.cl'',
            Print ''Could not find %s in bundle\<newline>'' [StrArg ''kernel.cl''],
            Release Queue, Release Context]"
  using assms
  by (rule_tac main_paths [where ops = ops and e = e]; simp split: if_splits)

theorem missing_kernel_source_witness:
  "ResourceLookup ''kernel.cl'' \<in> set (run_trace exact_ops env_no_resource) \<and>
   getBundleResourcePath env_no_resource ''kernel.cl'' = None \<and>
   exit_status exact_ops env_no_resource = 1 \<and>
   dropWhile (\<lambda>ev. ev \<noteq> Call ClCreateContext 0) (run_trace exact_ops env_no_resource) =
     [Call ClCreateContext 0,
      Call ClCreateCommandQueue 0,
      ResourceLookup ''kernel.cl'',
      Print ''Could not find %s in bundle\<newline>'' [StrArg ''kernel.cl''],
      Release Queue, Release Context]"
proof -
  have none: "getBundleResourcePath env_no_resource ''kernel.cl'' = None"
    by (simp add: env_no_resource_def env_simps)
  have reached: "ResourceLookup ''kernel.cl'' \<in> set (run_trace exact_ops env_no_resource)"
    by (rule main_paths [where ops = exact_ops and e = env_no_resource])
       (simp_all add: env_no_resource_def env_simps)
  from missing_kernel_source [OF reached none] none reached
  show ?thesis by (simp add: CL_SUCCESS_def)
qed

text \<open>
  Claim C8. If \<^verbatim>\<open>clBuildProgram\<close> answers an error \<open>c\<close>, the process exits with status
  1, and from the build call on the run is exactly: the build diagnostic with \<open>c\<close>, the
  query of the log size, the fetch of the log into a buffer of the size of the whole log
  and its terminating NUL, the print of the whole log, the releases of program, queue
  and context. (\<^verbatim>\<open>clGetProgramBuildInfo\<close> is taken to behave as the OpenCL specification
  says.)
\<close>

theorem build_failure_prints_log:
  assumes "Call ClBuildProgram c \<in> set (run_trace ops e)"
    and "c \<noteq> CL_SUCCESS"
  shows "exit_status ops e = 1 \<and>
         dropWhile (\<lambda>ev. ev \<noteq> Call ClBuildProgram c) (run_trace ops e) =
           [Call ClBuildProgram c,
            Print ''Error building program: %d\<newline>'' [IntArg (sint c)],
            GetProgramBuildInfo 0,
            GetProgramBuildInfo (length (build_log e) + 1),
            Print ''Build log:\<newline>%s\<newline>'' [StrArg (build_log e)],
            Release Program, Release Queue, Release Context]"
  using assms
  by (rule_tac main_paths [where ops = ops and e = e];
      simp add: mismatch_report_def split: if_splits)

theorem build_failure_prints_log_witness:
  "Call ClBuildProgram (- 11) \<in> set (run_trace exact_ops env_build_fails) \<and>
   exit_status exact_ops env_build_fails = 1 \<and>
   dropWhile (\<lambda>ev. ev \<noteq> Call ClBuildProgram (- 11)) (run_trace exact_ops env_build_fails) =
     [Call ClBuildProgram (- 11),
      Print ''Error building program: %d\<newline>'' [IntArg (- 11)],
      GetProgramBuildInfo 0,
      GetProgramBuildInfo 47,
      Print ''Build log:\<newline>%s\<newline>''
        [StrArg ''<program source>:1:1: error: unknown type name''],
      Release Program, Release Queue, Release Context]"
proof -
  have failed: "Call ClBuildProgram (- 11) \<in> set (run_trace exact_ops env_build_fails)"
    by (rule main_paths [where ops = exact_ops and e = env_build_fails])
       (simp_all add: env_build_fails_def env_simps)
  have "(- 11 :: cl_int) \<noteq> CL_SUCCESS"
    by (simp add: CL_SUCCESS_def)
  from build_failure_prints_log [OF failed this] failed
  show ?thesis by (simp add: env_build_fails_def env_simps)
qed

text \<open>
  Claim C9. A run that reaches the argument-binding step makes both
  \<^verbatim>\<open>clSetKernelArg\<close> calls (the input buffer as argument 0, the output buffer as
  argument 1), and it goes on to dispatch the kernel if and only if both calls answered
  \<^verbatim>\<open>CL_SUCCESS\<close>. If either failed the run aborts: after the second call it prints the
  diagnostic, releases the six objects and does nothing else.
\<close>

theorem argument_binding:
  assumes "called (run_trace ops e) (ClSetKernelArg 0 Mem_in)"
  shows "(called (run_trace ops e) (ClEnqueueNDRangeKernel NUM_VALUES) \<longleftrightarrow>
            arg0_err e = CL_SUCCESS \<and> arg1_err e = CL_SUCCESS) \<and>
         Call (ClSetKernelArg 0 Mem_in) (arg0_err e) \<in> set (run_trace ops e) \<and>
         Call (ClSetKernelArg 1 Mem_out) (arg1_err e) \<in> set (run_trace ops e) \<and>
         (\<not> (arg0_err e = CL_SUCCESS \<and> arg1_err e = CL_SUCCESS) \<longrightarrow>
            dropWhile (\<lambda>ev. ev \<noteq> Call (ClSetKernelArg 1 Mem_out) (arg1_err e)) (run_trace ops e) =
              [Call (ClSetKernelArg 1 Mem_out) (arg1_err e),
               Print ''Error setting kernel arguments: %d\<newline>''
                 [IntArg (sint (arg0_err e OR arg1_err e))],
               Release Mem_in, Release Mem_out,
               Release Kernel, Release Program, Release Queue, Release Context])"
  using assms
  by (rule_tac main_paths [where ops = ops and e = e];
      simp add: called_def mismatch_report_def CL_SUCCESS_def or_eq_0_iff split: if_splits)

theorem argument_binding_witness:
  "called (run_trace exact_ops env_arg1_fails) (ClSetKernelArg 0 Mem_in) \<and>
   \<not> called (run_trace exact_ops env_arg1_fails) (ClEnqueueNDRangeKernel NUM_VALUES) \<and>
   dropWhile (\<lambda>ev. ev \<noteq> Call (ClSetKernelArg 1 Mem_out) (- 50)) (run_trace exact_ops env_arg1_fails) =
     [Call (ClSetKernelArg 1 Mem_out) (- 50),
      Print ''Error setting kernel arguments: %d\<newline>'' [IntArg (- 50)],
      Release Mem_in, Release Mem_out,
      Release Kernel, Release Program, Release Queue, Release Context] \<and>
   called (run_trace exact_ops env_ok) (ClSetKernelArg 0 Mem_in) \<and>
   called (run_trace exact_ops env_ok) (ClEnqueueNDRangeKernel NUM_VALUES)"
proof -
  have r1: "called (run_trace exact_ops env_arg1_fails) (ClSetKernelArg 0 Mem_in)"
    by (rule main_paths [where ops = exact_ops and e = env_arg1_fails])
       (simp_all add: env_arg1_fails_def env_simps called_def mismatch_report_def)
  have r2: "called (run_trace exact_ops env_ok) (ClSetKernelArg 0 Mem_in)"
    by (rule main_paths [where ops = exact_ops and e = env_ok])
       (simp_all add: env_simps called_def mismatch_report_def)
  from argument_binding [OF r1] argument_binding [OF r2] r1 r2
  show ?thesis by (simp add: env_arg1_fails_def env_simps)
qed

section \<open>Validation inside a run\<close>

lemma validate_first_mismatch:
  assumes "k < NUM_VALUES"
    and "fne ops (heap s b k) (fmul ops (heap s a k) (heap s a k))"
    and "\<forall>j<k. \<not> fne ops (heap s b j) (fmul ops (heap s a j) (heap s a j))"
  shows "validate ops a b s = (emit (mismatch_report ops a b k s) s, 0)"
  unfolding validate_def using assms by (intro validate_loop_first) simp_all

lemma env_mismatch_reports:
  "Print ''Error: Element %d did not match expected output.\<newline>'' [IntArg 3]
     \<in> set (run_trace exact_ops env_mismatch)"
proof -
  have env: "test_in_ptr env_mismatch = 0" "test_out_ptr env_mismatch = 1"
    "device_out env_mismatch = (\<lambda>i. if i = 3 then 0 else int i * int i)"
    by (simp_all add: env_mismatch_def env_ok_def)
  have v: "validate exact_ops 0 1 s = (emit (mismatch_report exact_ops 0 1 3 s) s, 0)"
    if out: "\<forall>i<NUM_VALUES. heap s (test_out_ptr env_mismatch) i = device_out env_mismatch i"
    and inp: "test_in_ptr env_mismatch \<noteq> test_out_ptr env_mismatch \<longrightarrow>
         (\<forall>i<NUM_VALUES. heap s (test_in_ptr env_mismatch) i = of_index exact_ops i)"
    for s :: "int machine"
  proof (rule validate_first_mismatch)
    show "3 < NUM_VALUES" by (simp add: NUM_VALUES_def)
    from out inp show "fne exact_ops (heap s 1 3) (fmul exact_ops (heap s 0 3) (heap s 0 3))"
      by (simp add: env NUM_VALUES_def exact_ops_def)
    from out inp show "\<forall>j<3. \<not> fne exact_ops (heap s 1 j) (fmul exact_ops (heap s 0 j) (heap s 0 j))"
      by (simp add: env NUM_VALUES_def exact_ops_def)
  qed
  show ?thesis
  proof (rule main_paths [where ops = exact_ops and e = env_mismatch], goal_cases)
    case (14 src s)
    from v [OF 14(17,18)] 14(19) show ?case by (simp add: env)
  next
    case (15 src k s)
    from v [OF 15(17,18)] 15(19)
    have "emit (mismatch_report exact_ops 0 1 k s) s = emit (mismatch_report exact_ops 0 1 3 s) s"
      by (simp add: env)
    then have "trace (emit (mismatch_report exact_ops 0 1 k s) s) =
      trace (emit (mismatch_report exact_ops 0 1 3 s) s)"
      by (rule arg_cong)
    then have "mismatch_report exact_ops 0 1 k s = mismatch_report exact_ops 0 1 3 s"
      by simp
    with 15(16) show ?case by (simp add: env mismatch_report_def)
  qed (simp_all add: env_mismatch_def env_simps)
qed


text \<open>
  Claim C4. Every run that reaches the validation step (its read-back answered
  \<^verbatim>\<open>CL_SUCCESS\<close>) exits with status 0. In particular a run in which \<^verbatim>\<open>validate\<close>
  reports a mismatch at some index \<open>k\<close> exits with status 0: it reached validation, and
  the mismatch shows only in what is printed (the report, and no success line).
\<close>

theorem validation_mismatch_exit_status:
  "(Call ClEnqueueReadBuffer CL_SUCCESS \<in> set (run_trace ops e) \<longrightarrow>
      exit_status ops e = 0) \<and>
   (Print ''Error: Element %d did not match expected output.\<newline>'' [IntArg k]
      \<in> set (run_trace ops e) \<longrightarrow>
      exit_status ops e = 0 \<and>
      Call ClEnqueueReadBuffer CL_SUCCESS \<in> set (run_trace ops e) \<and>
      Print ''All values were properly squared!\<newline>'' [] \<notin> set (run_trace ops e))"
  by (rule main_paths [where ops = ops and e = e];
      simp add: mismatch_report_def split: if_splits)

theorem validation_mismatch_exit_status_witness:
  "Print ''Error: Element %d did not match expected output.\<newline>'' [IntArg 3]
     \<in> set (run_trace exact_ops env_mismatch) \<and>
   Call ClEnqueueReadBuffer CL_SUCCESS \<in> set (run_trace exact_ops env_mismatch) \<and>
   Print ''All values were properly squared!\<newline>'' [] \<notin> set (run_trace exact_ops env_mismatch) \<and>
   exit_status exact_ops env_mismatch = 0"
  using validation_mismatch_exit_status [of exact_ops env_mismatch 3] env_mismatch_reports
  by blast

section \<open>The string that is compiled\<close>

text \<open>
  Whatever string a run hands to \<^verbatim>\<open>clCreateProgramWithSource\<close> is the answer of
  \<^verbatim>\<open>getBundleResourcePath\<close>, that is, the path of kernel.cl.
\<close>

lemma program_source_from_lookup:
  "src \<in> set (program_sources (run_trace ops e)) \<Longrightarrow>
   getBundleResourcePath e ''kernel.cl'' = Some src"
  by (rule main_paths [where ops = ops and e = e];
      simp add: program_sources_def mismatch_report_def split: if_splits)

text \<open>
  Claim C2 says that the string handed to \<^verbatim>\<open>clCreateProgramWithSource\<close> is the text
  of the file kernel.cl. In the run \<open>env_ok\<close> the bundle resolves kernel.cl to
  \<open>kernel_path\<close>, the file at that path holds \<open>kernel_text\<close>, and the one string handed
  to \<^verbatim>\<open>clCreateProgramWithSource\<close> is \<open>kernel_path\<close>, which is not the text of the
  file. The comment at line 100 of main.c (\<^verbatim>\<open>Read the kernel source from the file\<close>)
  and the variable name \<^verbatim>\<open>kernel_source\<close> say the text was meant.
\<close>

theorem program_source_is_path:
  "program_sources (run_trace exact_ops env_ok) = [kernel_path] \<and>
   getBundleResourcePath env_ok ''kernel.cl'' = Some kernel_path \<and>
   file_contents env_ok kernel_path = Some kernel_text \<and>
   kernel_text \<noteq> kernel_path"
proof -
  have "program_sources (run_trace exact_ops env_ok) = [kernel_path]"
    by (rule main_paths [where ops = exact_ops and e = env_ok];
        simp add: env_simps program_sources_def mismatch_report_def)
  moreover have "getBundleResourcePath env_ok ''kernel.cl'' = Some kernel_path"
    by (simp add: env_simps)
  moreover have "file_contents env_ok kernel_path = Some kernel_text"
    by (simp add: env_simps)
  moreover have "kernel_text \<noteq> kernel_path"
    by (simp add: kernel_text_def kernel_path_def)
  ultimately show ?thesis by blast
qed

section \<open>Failures of the infrastructure\<close>

text \<open>
  Claim C1, amended. A failure of the platform lookup, of context, queue or program
  creation, of the program build or of kernel creation makes the process exit with
  status 1, and the run prints the diagnostic of the failing step with the numeric
  error code of the failing call. When both device probes fail the process exits with
  status 1 and all it prints is \<^verbatim>\<open>No GPU found, trying CPU...\<close> and
  \<^verbatim>\<open>No OpenCL devices found\<close>, without an error code. A failure of input-buffer
  creation, output-buffer creation, kernel dispatch or read-back prints the diagnostic
  of the failing step with its error code, and a failure of either kernel-argument
  binding prints \<^verbatim>\<open>Error setting kernel arguments\<close> with the bitwise OR of the two
  bindings' codes. (Nothing is said here about the exit status on the paths through
  the label \<^verbatim>\<open>cleanup\<close>.)
\<close>

theorem failure_diagnostics:
  "(Call f c \<in> set (run_trace ops e) \<and> c \<noteq> CL_SUCCESS \<and> returns_1 f \<longrightarrow>
      exit_status ops e = 1 \<and>
      Print (diagnostic f) [IntArg (sint c)] \<in> set (run_trace ops e)) \<and>
   (Call (ClGetDeviceIDs CL_DEVICE_TYPE_GPU) g \<in> set (run_trace ops e) \<and> g \<noteq> CL_SUCCESS \<and>
    Call (ClGetDeviceIDs CL_DEVICE_TYPE_CPU) d \<in> set (run_trace ops e) \<and> d \<noteq> CL_SUCCESS \<longrightarrow>
      exit_status ops e = 1 \<and>
      printed (run_trace ops e) =
        [Print ''No GPU found, trying CPU...\<newline>'' [],
         Print ''No OpenCL devices found\<newline>'' []]) \<and>
   (Call f' c' \<in> set (run_trace ops e) \<and> c' \<noteq> CL_SUCCESS \<and> goes_to_cleanup f' \<longrightarrow>
      Print (diagnostic f') [IntArg (sint c')] \<in> set (run_trace ops e)) \<and>
   (Call (ClSetKernelArg 0 Mem_in) c0 \<in> set (run_trace ops e) \<and>
    Call (ClSetKernelArg 1 Mem_out) c1 \<in> set (run_trace ops e) \<and>
    (c0 \<noteq> CL_SUCCESS \<or> c1 \<noteq> CL_SUCCESS) \<longrightarrow>
      Print ''Error setting kernel arguments: %d\<newline>'' [IntArg (sint (c0 OR c1))]
        \<in> set (run_trace ops e))"
  by (rule main_paths [where ops = ops and e = e];
      auto simp: printed_def mismatch_report_def split: if_splits)

theorem failure_diagnostics_witness:
  "exit_status exact_ops env_build_fails = 1 \<and>
   Print ''Error building program: %d\<newline>'' [IntArg (- 11)]
     \<in> set (run_trace exact_ops env_build_fails) \<and>
   exit_status exact_ops env_no_device = 1 \<and>
   printed (run_trace exact_ops env_no_device) =
     [Print ''No GPU found, trying CPU...\<newline>'' [],
      Print ''No OpenCL devices found\<newline>'' []] \<and>
   Print ''Error creating input buffer: %d\<newline>'' [IntArg (- 4)]
     \<in> set (run_trace exact_ops env_no_input_buffer) \<and>
   Print ''Error setting kernel arguments: %d\<newline>'' [IntArg (- 50)]
     \<in> set (run_trace exact_ops env_arg1_fails)"
proof -
  have h1: "Call ClBuildProgram (- 11) \<in> set (run_trace exact_ops env_build_fails)"
    by (rule main_paths [where ops = exact_ops and e = env_build_fails])
       (simp_all add: env_build_fails_def env_simps)
  have h2: "Call (ClGetDeviceIDs CL_DEVICE_TYPE_GPU) (- 1) \<in> set (run_trace exact_ops env_no_device) \<and>
    Call (ClGetDeviceIDs CL_DEVICE_TYPE_CPU) (- 1) \<in> set (run_trace exact_ops env_no_device)"
    by (rule main_paths [where ops = exact_ops and e = env_no_device])
       (simp_all add: env_no_device_def env_simps)
  have h3: "Call (ClCreateBuffer Mem_in) (- 4) \<in> set (run_trace exact_ops env_no_input_buffer)"
    by (rule main_paths [where ops = exact_ops and e = env_no_input_buffer])
       (simp_all add: env_no_input_buffer_def env_simps)
  have h4: "Call (ClSetKernelArg 0 Mem_in) 0 \<in> set (run_trace exact_ops env_arg1_fails) \<and>
    Call (ClSetKernelArg 1 Mem_out) (- 50) \<in> set (run_trace exact_ops env_arg1_fails)"
    by (rule main_paths [where ops = exact_ops and e = env_arg1_fails])
       (simp_all add: env_arg1_fails_def env_simps)
  from h1 failure_diagnostics [where ops = exact_ops and e = env_build_fails
      and f = ClBuildProgram and c = "- 11"]
  have r1: "exit_status exact_ops env_build_fails = 1 \<and>
    Print ''Error building program: %d\<newline>'' [IntArg (- 11)]
      \<in> set (run_trace exact_ops env_build_fails)"
    by (simp add: CL_SUCCESS_def)
  from h2 failure_diagnostics [where ops = exact_ops and e = env_no_device
      and g = "- 1" and d = "- 1"]
  have r2: "exit_status exact_ops env_no_device = 1 \<and>
    printed (run_trace exact_ops env_no_device) =
      [Print ''No GPU found, trying CPU...\<newline>'' [],
       Print ''No OpenCL devices found\<newline>'' []]"
    by (simp add: CL_SUCCESS_def)
  from h3 failure_diagnostics [where ops = exact_ops and e = env_no_input_buffer
      and f' = "ClCreateBuffer Mem_in" and c' = "- 4"]
  have r3: "Print ''Error creating input buffer: %d\<newline>'' [IntArg (- 4)]
     \<in> set (run_trace exact_ops env_no_input_buffer)"
    by (simp add: CL_SUCCESS_def)
  from h4 failure_diagnostics [where ops = exact_ops and e = env_arg1_fails
      and ?c0.0 = 0 and ?c1.0 = "- 50"]
  have r4: "Print ''Error setting kernel arguments: %d\<newline>'' [IntArg (- 50)]
     \<in> set (run_trace exact_ops env_arg1_fails)"
    by (simp add: CL_SUCCESS_def)
  from r1 r2 r3 r4 show ?thesis by blast
qed

text \<open>
  Claim C1 as first stated (every infrastructure failure ends in exit status 1 after a
  diagnostic with the numeric error code) fails in three runs: when the input buffer
  cannot be created (\<open>-4\<close>) the process exits with status 0; when both device probes
  fail (\<open>-1\<close>) nothing that is printed carries an error code; and when the two
  kernel-argument bindings fail with \<open>-38\<close> and \<open>-50\<close> the number printed is \<open>-34\<close>,
  the code of neither call.
\<close>

theorem failure_exit_status_counterexample:
  "Call (ClCreateBuffer Mem_in) (- 4) \<in> set (run_trace exact_ops env_no_input_buffer) \<and>
   exit_status exact_ops env_no_input_buffer = 0 \<and>
   Call (ClGetDeviceIDs CL_DEVICE_TYPE_CPU) (- 1) \<in> set (run_trace exact_ops env_no_device) \<and>
   printed (run_trace exact_ops env_no_device) =
     [Print ''No GPU found, trying CPU...\<newline>'' [],
      Print ''No OpenCL devices found\<newline>'' []] \<and>
   Call (ClSetKernelArg 0 Mem_in) (- 38) \<in> set (run_trace exact_ops env_both_args_fail) \<and>
   Call (ClSetKernelArg 1 Mem_out) (- 50) \<in> set (run_trace exact_ops env_both_args_fail) \<and>
   printed (run_trace exact_ops env_both_args_fail) =
     [Print ''Using device: %s\<newline>'' [StrArg ''Apple M1''],
      Print ''Error setting kernel arguments: %d\<newline>'' [IntArg (- 34)]]"
proof -
  have "Call (ClCreateBuffer Mem_in) (- 4) \<in> set (run_trace exact_ops env_no_input_buffer) \<and>
    exit_status exact_ops env_no_input_buffer = 0"
    by (rule main_paths [where ops = exact_ops and e = env_no_input_buffer])
       (simp_all add: env_no_input_buffer_def env_simps)
  moreover
  have "Call (ClGetDeviceIDs CL_DEVICE_TYPE_CPU) (- 1) \<in> set (run_trace exact_ops env_no_device) \<and>
    printed (run_trace exact_ops env_no_device) =
     [Print ''No GPU found, trying CPU...\<newline>'' [],
      Print ''No OpenCL devices found\<newline>'' []]"
    by (rule main_paths [where ops = exact_ops and e = env_no_device])
       (simp_all add: env_no_device_def env_simps printed_def)
  moreover
  have "Call (ClSetKernelArg 0 Mem_in) (- 38) \<in> set (run_trace exact_ops env_both_args_fail) \<and>
    Call (ClSetKernelArg 1 Mem_out) (- 50) \<in> set (run_trace exact_ops env_both_args_fail) \<and>
    printed (run_trace exact_ops env_both_args_fail) =
     [Print ''Using device: %s\<newline>'' [StrArg ''Apple M1''],
      Print ''Error setting kernel arguments: %d\<newline>'' [IntArg (- 34)]]"
    by (rule main_paths [where ops = exact_ops and e = env_both_args_fail])
       (simp_all add: env_both_args_fail_def env_simps printed_def)
  ultimately show ?thesis by blast
qed

end
